theory Spec2Isabelle
  imports Main
begin

section \<open>Python values and their rendering\<close>

text \<open>
  The values that travel through the server: tool arguments decoded from JSON, the
  parameters bound to a statement and the column values of a result row.  Only the
  scalar shapes are modelled (\<open>None\<close>, booleans, unbounded integers, strings);
  floating point numbers and nested containers as argument values are outside the model.
\<close>

datatype pyval = VNone | VBool bool | VInt int | VStr string

text \<open>Truth value testing, as \<^verbatim>\<open>if x:\<close> performs it.\<close>

fun truthy :: "pyval \<Rightarrow> bool" where
  "truthy VNone = False"
| "truthy (VBool b) = b"
| "truthy (VInt i) = (i \<noteq> 0)"
| "truthy (VStr s) = (s \<noteq> [])"

definition digit_char :: "nat \<Rightarrow> char" where
  "digit_char d = ''0123456789'' ! d"

text \<open>Decimal rendering of an integer, as an f-string replacement field produces it.\<close>

fun str_nat :: "nat \<Rightarrow> string" where
  "str_nat n = (if n < 10 then [digit_char n] else str_nat (n div 10) @ [digit_char (n mod 10)])"

declare str_nat.simps [simp del]

definition str_int :: "int \<Rightarrow> string" where
  "str_int i = (if i < 0 then ''-'' @ str_nat (nat (- i)) else str_nat (nat i))"

text \<open>\<^verbatim>\<open>str(v)\<close>, which is what \<^verbatim>\<open>f"{v}"\<close> inserts.\<close>

fun py_str :: "pyval \<Rightarrow> string" where
  "py_str VNone = ''None''"
| "py_str (VBool b) = (if b then ''True'' else ''False'')"
| "py_str (VInt i) = str_int i"
| "py_str (VStr s) = s"

text \<open>The typed optional parameters of \<^verbatim>\<open>get_survey_data\<close> as runtime values.\<close>

fun of_opt_int :: "int option \<Rightarrow> pyval" where
  "of_opt_int None = VNone"
| "of_opt_int (Some i) = VInt i"

fun of_opt_str :: "string option \<Rightarrow> pyval" where
  "of_opt_str None = VNone"
| "of_opt_str (Some s) = VStr s"

abbreviation nl :: string where
  "nl \<equiv> [CHR 0x0A]"

abbreviation apostrophe :: string where
  "apostrophe \<equiv> [CHR 0x27]"

section \<open>Exceptions\<close>

text \<open>
  The exceptions the code raises or lets through.  All but \<open>CancelledError\<close> derive
  from \<^verbatim>\<open>Exception\<close>; \<open>CancelledError\<close> derives from \<^verbatim>\<open>BaseException\<close>
  only, so an \<^verbatim>\<open>except Exception\<close> clause does not catch it while a
  \<^verbatim>\<open>finally\<close> clause still runs.  \<open>DriverError\<close> stands for whatever the
  connector or the database driver raises; \<open>ValidationError\<close> is pydantic's.
\<close>

datatype pyexc =
    RuntimeError string
  | ValueError string
  | KeyError string
  | ValidationError string
  | DriverError string
  | CancelledError

fun is_Exception :: "pyexc \<Rightarrow> bool" where
  "is_Exception CancelledError = False"
| "is_Exception _ = True"

fun str_exc :: "pyexc \<Rightarrow> string" where
  "str_exc (RuntimeError m) = m"
| "str_exc (ValueError m) = m"
| "str_exc (KeyError k) = apostrophe @ k @ apostrophe"
| "str_exc (ValidationError m) = m"
| "str_exc (DriverError m) = m"
| "str_exc CancelledError = []"

section \<open>Rows and responses\<close>

text \<open>A result row is an ordered mapping from column name to value.\<close>

type_synonym row = "(string \<times> pyval) list"

text \<open>
  The object handed to \<^verbatim>\<open>json.dumps\<close>, and the text of a response: either a
  string the handler formats itself, or the serialisation of such an object (the
  serialiser is the standard library's and stays symbolic).
\<close>

datatype pyobj = Scalar pyval | PyList "pyobj list" | PyDict "(string \<times> pyobj) list"

datatype message = Plain string | Json_dumps pyobj

datatype content = TextContent message

datatype call_tool_result = CallToolResult "content list"

datatype read_resource_result = ReadResourceResult "content list"

definition row_obj :: "row \<Rightarrow> pyobj" where
  "row_obj r = PyDict (map (\<lambda>(k, v). (k, Scalar v)) r)"

section \<open>The database boundary\<close>

text \<open>
  The observable effects of the data access layer are recorded in a \<open>world\<close>: how
  many connections were acquired, how many were closed, and which statements were sent
  with which parameters.
\<close>

record world =
  opened :: nat
  closed :: nat
  executed :: "(string \<times> pyval list) list"

text \<open>
  What lies outside the repository is a parameter of the model: the connector
  (\<open>getconn\<close>: \<open>None\<close> when a connection is produced, otherwise the exception
  raised), the driver's \<^verbatim>\<open>conn.fetch\<close> (rows or an exception, possibly depending
  on the history), pydantic's field validators together with the text of its
  validation error for a list of offending fields, and the validation that the protocol
  library's \<^verbatim>\<open>ReadResourceResult\<close> applies to its \<^verbatim>\<open>contents\<close>.
  \<^verbatim>\<open>conn.close()\<close> is taken to succeed.
\<close>

record env =
  getconn :: "world \<Rightarrow> pyexc option"
  conn_fetch :: "world \<Rightarrow> string \<Rightarrow> pyval list \<Rightarrow> pyexc + row list"
  validate_int :: "pyval \<Rightarrow> int option"
  validate_str :: "pyval \<Rightarrow> string option"
  validation_message :: "string list \<Rightarrow> string"
  resource_contents_valid :: "content list \<Rightarrow> bool"

text \<open>
  Of an \<^verbatim>\<open>AlloyDBConnection\<close> object only one thing matters to the query
  methods: whether \<^verbatim>\<open>initialize\<close> has stored the \<^verbatim>\<open>_getconn\<close> attribute.
\<close>

record AlloyDBConnection =
  has_getconn :: bool

text \<open>
  \<^verbatim>\<open>execute_query\<close>: the guard on \<^verbatim>\<open>_getconn\<close>, the acquisition outside
  the \<^verbatim>\<open>try\<close>, the fetch, and the \<^verbatim>\<open>finally\<close> clause that closes the
  connection.  The \<^verbatim>\<open>except\<close> clause only logs and re-raises.
\<close>

definition execute_query ::
  "env \<Rightarrow> AlloyDBConnection \<Rightarrow> string \<Rightarrow> pyval list \<Rightarrow> world \<Rightarrow> (pyexc + row list) \<times> world" where
  "execute_query E self query params w =
     (if \<not> has_getconn self then
        (Inl (RuntimeError ''Database connection not initialized''), w)
      else
        (case getconn E w of
           Some e \<Rightarrow> (Inl e, w)
         | None \<Rightarrow>
             (let w1 = w\<lparr>opened := opened w + 1\<rparr>;
                  rows = (if params \<noteq> [] then conn_fetch E w1 query params
                          else conn_fetch E w1 query []);
                  w2 = w1\<lparr>executed := executed w1 @ [(query, params)]\<rparr>
              in (rows, w2\<lparr>closed := closed w2 + 1\<rparr>))))"

section \<open>The survey query\<close>

definition base_query :: string where
  "base_query =
     nl @
     ''        SELECT '' @ nl @
     ''            survey_id,'' @ nl @
     ''            respondent_id,'' @ nl @
     ''            survey_date,'' @ nl @
     ''            location,'' @ nl @
     ''            respondent_type,'' @ nl @
     ''            questions_responses,'' @ nl @
     ''            metadata,'' @ nl @
     ''            created_at,'' @ nl @
     ''            updated_at'' @ nl @
     ''        FROM surveys'' @ nl @
     ''        WHERE 1=1'' @ nl @
     ''        ''"

text \<open>
  The statement text and the parameter list that \<^verbatim>\<open>get_survey_data\<close> hands to
  \<^verbatim>\<open>execute_query\<close>.  Each of the five blocks tests its argument for truth,
  increments \<^verbatim>\<open>param_count\<close>, appends its fragment and its parameter.
\<close>

definition get_survey_data_query ::
  "int option \<Rightarrow> string option \<Rightarrow> string option \<Rightarrow> string option \<Rightarrow> string option \<Rightarrow> int
     \<Rightarrow> string \<times> pyval list" where
  "get_survey_data_query survey_id location date_from date_to respondent_type limit =
     (let q0 = base_query; params0 = []; param_count0 = (0::nat);
          (q1, params1, param_count1) =
            (if truthy (of_opt_int survey_id) then
               (q0 @ '' AND survey_id = $'' @ str_nat (param_count0 + 1),
                params0 @ [of_opt_int survey_id], param_count0 + 1)
             else (q0, params0, param_count0));
          (q2, params2, param_count2) =
            (if truthy (of_opt_str location) then
               (q1 @ '' AND location ILIKE $'' @ str_nat (param_count1 + 1),
                params1 @ [VStr (''%'' @ py_str (of_opt_str location) @ ''%'')], param_count1 + 1)
             else (q1, params1, param_count1));
          (q3, params3, param_count3) =
            (if truthy (of_opt_str date_from) then
               (q2 @ '' AND survey_date >= $'' @ str_nat (param_count2 + 1),
                params2 @ [of_opt_str date_from], param_count2 + 1)
             else (q2, params2, param_count2));
          (q4, params4, param_count4) =
            (if truthy (of_opt_str date_to) then
               (q3 @ '' AND survey_date <= $'' @ str_nat (param_count3 + 1),
                params3 @ [of_opt_str date_to], param_count3 + 1)
             else (q3, params3, param_count3));
          (q5, params5, param_count5) =
            (if truthy (of_opt_str respondent_type) then
               (q4 @ '' AND respondent_type = $'' @ str_nat (param_count4 + 1),
                params4 @ [of_opt_str respondent_type], param_count4 + 1)
             else (q4, params4, param_count4))
      in (q5 @ '' ORDER BY survey_date DESC LIMIT '' @ str_int limit, params5))"

definition get_survey_data ::
  "env \<Rightarrow> AlloyDBConnection \<Rightarrow> int option \<Rightarrow> string option \<Rightarrow> string option \<Rightarrow> string option
     \<Rightarrow> string option \<Rightarrow> int \<Rightarrow> world \<Rightarrow> (pyexc + row list) \<times> world" where
  "get_survey_data E self survey_id location date_from date_to respondent_type limit w =
     (case get_survey_data_query survey_id location date_from date_to respondent_type limit of
        (q, params) \<Rightarrow> execute_query E self q params w)"

section \<open>The parameterless accessors\<close>

definition stats_query :: string where
  "stats_query =
     nl @
     ''        SELECT '' @ nl @
     ''            COUNT(*) as total_surveys,'' @ nl @
     ''            COUNT(DISTINCT location) as unique_locations,'' @ nl @
     ''            COUNT(DISTINCT respondent_type) as respondent_types,'' @ nl @
     ''            MIN(survey_date) as earliest_survey,'' @ nl @
     ''            MAX(survey_date) as latest_survey,'' @ nl @
     ''            COUNT(DISTINCT DATE(survey_date)) as survey_days'' @ nl @
     ''        FROM surveys'' @ nl @
     ''        ''"

definition get_survey_statistics ::
  "env \<Rightarrow> AlloyDBConnection \<Rightarrow> world \<Rightarrow> (pyexc + row) \<times> world" where
  "get_survey_statistics E self w =
     (case execute_query E self stats_query [] w of
        (Inl e, w') \<Rightarrow> (Inl e, w')
      | (Inr result, w') \<Rightarrow> (Inr (case result of [] \<Rightarrow> [] | r # _ \<Rightarrow> r), w'))"

text \<open>\<^verbatim>\<open>[row[k] for row in result]\<close>: a row without the key raises \<open>KeyError\<close>.\<close>

fun column :: "string \<Rightarrow> row list \<Rightarrow> pyexc + pyval list" where
  "column k [] = Inr []"
| "column k (r # rs) =
     (case map_of r k of
        None \<Rightarrow> Inl (KeyError k)
      | Some v \<Rightarrow> (case column k rs of Inl e \<Rightarrow> Inl e | Inr vs \<Rightarrow> Inr (v # vs)))"

definition get_locations ::
  "env \<Rightarrow> AlloyDBConnection \<Rightarrow> world \<Rightarrow> (pyexc + pyval list) \<times> world" where
  "get_locations E self w =
     (case execute_query E self
             ''SELECT DISTINCT location FROM surveys WHERE location IS NOT NULL ORDER BY location''
             [] w of
        (Inl e, w') \<Rightarrow> (Inl e, w')
      | (Inr result, w') \<Rightarrow> (column ''location'' result, w'))"

definition get_respondent_types ::
  "env \<Rightarrow> AlloyDBConnection \<Rightarrow> world \<Rightarrow> (pyexc + pyval list) \<times> world" where
  "get_respondent_types E self w =
     (case execute_query E self
             ''SELECT DISTINCT respondent_type FROM surveys WHERE respondent_type IS NOT NULL ORDER BY respondent_type''
             [] w of
        (Inl e, w') \<Rightarrow> (Inl e, w')
      | (Inr result, w') \<Rightarrow> (column ''respondent_type'' result, w'))"

section \<open>The typed parameter model of the fetch tool\<close>

text \<open>
  \<^verbatim>\<open>SurveyQueryParams\<close>, the pydantic model.  Its fields carry the prefix
  \<open>sqp_\<close> here, so that the argument names of the query builder stay free.
\<close>

record SurveyQueryParams =
  sqp_survey_id :: "int option"
  sqp_location :: "string option"
  sqp_date_from :: "string option"
  sqp_date_to :: "string option"
  sqp_respondent_type :: "string option"
  sqp_limit :: int

text \<open>
  A field declared \<^verbatim>\<open>Optional[T] = None\<close>: a missing key or an explicit
  \<open>None\<close> gives \<open>None\<close>, any other value goes through the validator of \<open>T\<close>.
  The outer \<open>None\<close> of the result says that validation failed.
\<close>

definition optional_field :: "(pyval \<Rightarrow> 'a option) \<Rightarrow> pyval option \<Rightarrow> 'a option option" where
  "optional_field validate arg =
     (case arg of
        None \<Rightarrow> Some None
      | Some VNone \<Rightarrow> Some None
      | Some v \<Rightarrow> (case validate v of None \<Rightarrow> None | Some x \<Rightarrow> Some (Some x)))"

text \<open>A field declared \<^verbatim>\<open>T = default\<close>: only a missing key gives the default.\<close>

definition defaulted_field :: "(pyval \<Rightarrow> 'a option) \<Rightarrow> 'a \<Rightarrow> pyval option \<Rightarrow> 'a option" where
  "defaulted_field validate d arg = (case arg of None \<Rightarrow> Some d | Some v \<Rightarrow> validate v)"

text \<open>
  \<^verbatim>\<open>SurveyQueryParams(**arguments)\<close>: every declared field is validated, keys the
  model does not declare are ignored, and one \<open>ValidationError\<close> reports the fields
  that failed.
\<close>

definition SurveyQueryParams_init :: "env \<Rightarrow> (string \<rightharpoonup> pyval) \<Rightarrow> pyexc + SurveyQueryParams" where
  "SurveyQueryParams_init E arguments =
     (let f_survey_id = optional_field (validate_int E) (arguments ''survey_id'');
          f_location = optional_field (validate_str E) (arguments ''location'');
          f_date_from = optional_field (validate_str E) (arguments ''date_from'');
          f_date_to = optional_field (validate_str E) (arguments ''date_to'');
          f_respondent_type = optional_field (validate_str E) (arguments ''respondent_type'');
          f_limit = defaulted_field (validate_int E) 100 (arguments ''limit'');
          bad = (if f_survey_id = None then [''survey_id''] else []) @
                (if f_location = None then [''location''] else []) @
                (if f_date_from = None then [''date_from''] else []) @
                (if f_date_to = None then [''date_to''] else []) @
                (if f_respondent_type = None then [''respondent_type''] else []) @
                (if f_limit = None then [''limit''] else [])
      in (case (f_survey_id, f_location, f_date_from, f_date_to, f_respondent_type, f_limit) of
            (Some a, Some b, Some c, Some d, Some e, Some l) \<Rightarrow>
              Inr \<lparr>sqp_survey_id = a, sqp_location = b, sqp_date_from = c, sqp_date_to = d,
                   sqp_respondent_type = e, sqp_limit = l\<rparr>
          | _ \<Rightarrow> Inl (ValidationError (validation_message E bad))))"

section \<open>The tool dispatcher\<close>

text \<open>\<^verbatim>\<open>arguments.get(k)\<close> and \<^verbatim>\<open>arguments.get(k, d)\<close>.\<close>

definition dict_get :: "(string \<rightharpoonup> pyval) \<Rightarrow> string \<Rightarrow> pyval \<Rightarrow> pyval" where
  "dict_get arguments k d = (case arguments k of None \<Rightarrow> d | Some v \<Rightarrow> v)"

fun join :: "string \<Rightarrow> string list \<Rightarrow> string" where
  "join sep [] = []"
| "join sep [x] = x"
| "join sep (x # y # ys) = x @ sep @ join sep (y # ys)"

text \<open>
  The two blocks of the search tool that collect the conditions and their parameters.
\<close>

definition search_conditions :: "pyval \<Rightarrow> pyval \<Rightarrow> string list \<times> pyval list" where
  "search_conditions question_text response_text =
     (let conds0 = []; params0 = []; param_count0 = (0::nat);
          (conds1, params1, param_count1) =
            (if truthy question_text then
               (conds0 @ [''questions_responses::text ILIKE $'' @ str_nat (param_count0 + 1)],
                params0 @ [VStr (''%'' @ py_str question_text @ ''%'')], param_count0 + 1)
             else (conds0, params0, param_count0));
          (conds2, params2, param_count2) =
            (if truthy response_text then
               (conds1 @ [''questions_responses::text ILIKE $'' @ str_nat (param_count1 + 1)],
                params1 @ [VStr (''%'' @ py_str response_text @ ''%'')], param_count1 + 1)
             else (conds1, params1, param_count1))
      in (conds2, params2))"

text \<open>The f-string that forms the search statement.\<close>

definition search_query :: "string list \<Rightarrow> pyval \<Rightarrow> string" where
  "search_query conds limit =
     nl @
     ''            SELECT '' @ nl @
     ''                survey_id,'' @ nl @
     ''                respondent_id,'' @ nl @
     ''                survey_date,'' @ nl @
     ''                location,'' @ nl @
     ''                respondent_type,'' @ nl @
     ''                questions_responses,'' @ nl @
     ''                created_at'' @ nl @
     ''            FROM surveys'' @ nl @
     ''            WHERE '' @ join '' AND '' conds @ nl @
     ''            ORDER BY survey_date DESC'' @ nl @
     ''            LIMIT '' @ py_str limit @ nl @
     ''            ''"

text \<open>
  The statement and parameters of the search tool, or \<open>None\<close> when no condition was
  collected and the handler returns its error text instead.
\<close>

definition build_search_query :: "pyval \<Rightarrow> pyval \<Rightarrow> pyval \<Rightarrow> (string \<times> pyval list) option" where
  "build_search_query question_text response_text limit =
     (case search_conditions question_text response_text of
        (conds, params) \<Rightarrow>
          if conds = [] then None else Some (search_query conds limit, params))"

text \<open>The body of the \<^verbatim>\<open>try\<close> block of \<^verbatim>\<open>call_tool\<close>.\<close>

definition call_tool_try ::
  "env \<Rightarrow> AlloyDBConnection \<Rightarrow> string \<Rightarrow> (string \<rightharpoonup> pyval) \<Rightarrow> world
     \<Rightarrow> (pyexc + call_tool_result) \<times> world" where
  "call_tool_try E db name arguments w =
     (if name = ''fetch_survey_data'' then
        (case SurveyQueryParams_init E arguments of
           Inl e \<Rightarrow> (Inl e, w)
         | Inr params \<Rightarrow>
             (case get_survey_data E db (sqp_survey_id params) (sqp_location params)
                     (sqp_date_from params) (sqp_date_to params) (sqp_respondent_type params)
                     (sqp_limit params) w of
                (Inl e, w') \<Rightarrow> (Inl e, w')
              | (Inr surveys, w') \<Rightarrow>
                  (Inr (CallToolResult [TextContent (Json_dumps (PyDict
                     [(''count'', Scalar (VInt (int (length surveys)))),
                      (''surveys'', PyList (map row_obj surveys))]))]), w')))
      else if name = ''get_survey_summary'' then
        (case get_survey_statistics E db w of
           (Inl e, w1) \<Rightarrow> (Inl e, w1)
         | (Inr stats, w1) \<Rightarrow>
             (case get_locations E db w1 of
                (Inl e, w2) \<Rightarrow> (Inl e, w2)
              | (Inr locations, w2) \<Rightarrow>
                  (case get_respondent_types E db w2 of
                     (Inl e, w3) \<Rightarrow> (Inl e, w3)
                   | (Inr respondent_types, w3) \<Rightarrow>
                       (Inr (CallToolResult [TextContent (Json_dumps (PyDict
                          [(''statistics'', row_obj stats),
                           (''available_locations'', PyList (map Scalar locations)),
                           (''available_respondent_types'', PyList (map Scalar respondent_types))]))]),
                        w3))))
      else if name = ''search_surveys_by_question'' then
        (let question_text = dict_get arguments ''question_text'' VNone;
             response_text = dict_get arguments ''response_text'' VNone;
             limit = dict_get arguments ''limit'' (VInt 50)
         in (case build_search_query question_text response_text limit of
               None \<Rightarrow>
                 (Inr (CallToolResult [TextContent (Plain
                    ''Error: At least one search parameter (question_text or response_text) is required'')]),
                  w)
             | Some (query, params) \<Rightarrow>
                 (case execute_query E db query params w of
                    (Inl e, w') \<Rightarrow> (Inl e, w')
                  | (Inr results, w') \<Rightarrow>
                      (Inr (CallToolResult [TextContent (Json_dumps (PyDict
                         [(''count'', Scalar (VInt (int (length results)))),
                          (''matching_surveys'', PyList (map row_obj results))]))]), w'))))
      else
        (Inr (CallToolResult [TextContent (Plain
           (''Error: Unknown tool '' @ apostrophe @ name @ apostrophe))]), w))"

text \<open>
  \<^verbatim>\<open>call_tool\<close>: the guard on the process-wide connection, then the
  \<^verbatim>\<open>try\<close> block, whose \<^verbatim>\<open>except Exception\<close> clause turns an exception into
  an error text.  A result \<open>Inl e\<close> is an exception that leaves the handler.
\<close>

definition call_tool ::
  "env \<Rightarrow> AlloyDBConnection option \<Rightarrow> string \<Rightarrow> (string \<rightharpoonup> pyval) \<Rightarrow> world
     \<Rightarrow> (pyexc + call_tool_result) \<times> world" where
  "call_tool E db_connection name arguments w =
     (case db_connection of
        None \<Rightarrow>
          (Inr (CallToolResult [TextContent (Plain ''Error: Database connection not initialized'')]), w)
      | Some db \<Rightarrow>
          (case call_tool_try E db name arguments w of
             (Inr r, w') \<Rightarrow> (Inr r, w')
           | (Inl e, w') \<Rightarrow>
               if is_Exception e then
                 (Inr (CallToolResult [TextContent (Plain (''Error: '' @ str_exc e))]), w')
               else (Inl e, w')))"

section \<open>The resource catalog\<close>

text \<open>
  \<^verbatim>\<open>ReadResourceResult(contents=[...])\<close>: the constructor validates its argument
  and raises \<open>ValidationError\<close> when the library does not accept it.
\<close>

definition ReadResourceResult_init :: "env \<Rightarrow> content list \<Rightarrow> pyexc + read_resource_result" where
  "ReadResourceResult_init E contents =
     (if resource_contents_valid E contents then Inr (ReadResourceResult contents)
      else Inl (ValidationError (validation_message E [''contents''])))"

text \<open>The body of the \<^verbatim>\<open>try\<close> block of \<^verbatim>\<open>read_resource\<close>.\<close>

definition read_resource_try ::
  "env \<Rightarrow> AlloyDBConnection \<Rightarrow> string \<Rightarrow> world \<Rightarrow> (pyexc + read_resource_result) \<times> world" where
  "read_resource_try E db uri w =
     (if uri = ''alloydb://surveys/statistics'' then
        (case get_survey_statistics E db w of
           (Inl e, w') \<Rightarrow> (Inl e, w')
         | (Inr stats, w') \<Rightarrow>
             (ReadResourceResult_init E [TextContent (Json_dumps (row_obj stats))], w'))
      else if uri = ''alloydb://surveys/locations'' then
        (case get_locations E db w of
           (Inl e, w') \<Rightarrow> (Inl e, w')
         | (Inr locations, w') \<Rightarrow>
             (ReadResourceResult_init E [TextContent (Json_dumps (PyDict
                [(''locations'', PyList (map Scalar locations))]))], w'))
      else if uri = ''alloydb://surveys/respondent-types'' then
        (case get_respondent_types E db w of
           (Inl e, w') \<Rightarrow> (Inl e, w')
         | (Inr types, w') \<Rightarrow>
             (ReadResourceResult_init E [TextContent (Json_dumps (PyDict
                [(''respondent_types'', PyList (map Scalar types))]))], w'))
      else (Inl (ValueError (''Unknown resource: '' @ uri)), w))"

text \<open>
  \<^verbatim>\<open>read_resource\<close>: here the guard on the process-wide connection raises, and
  it stands before the \<^verbatim>\<open>try\<close> block.  The \<^verbatim>\<open>except Exception\<close> clause
  builds its error response with the same constructor; what that raises leaves the
  handler.
\<close>

definition read_resource ::
  "env \<Rightarrow> AlloyDBConnection option \<Rightarrow> string \<Rightarrow> world \<Rightarrow> (pyexc + read_resource_result) \<times> world" where
  "read_resource E db_connection uri w =
     (case db_connection of
        None \<Rightarrow> (Inl (RuntimeError ''Database connection not initialized''), w)
      | Some db \<Rightarrow>
          (case read_resource_try E db uri w of
             (Inr r, w') \<Rightarrow> (Inr r, w')
           | (Inl e, w') \<Rightarrow>
               if is_Exception e then
                 (ReadResourceResult_init E [TextContent (Plain (''Error: '' @ str_exc e))], w')
               else (Inl e, w')))"

section \<open>Observing statements and responses\<close>

text \<open>
  The numbered placeholders of a statement text, in order of occurrence: for every
  \<open>$\<close> the run of decimal digits that follows it.
\<close>

definition is_digit :: "char \<Rightarrow> bool" where
  "is_digit c = (c \<in> set ''0123456789'')"

fun placeholders :: "string \<Rightarrow> string list" where
  "placeholders [] = []"
| "placeholders (c # cs) =
     (if c = CHR ''$'' then takeWhile is_digit cs # placeholders cs else placeholders cs)"

text \<open>
  The select list of a statement: the blank-separated words between the first
  \<open>SELECT\<close> and the following \<open>FROM\<close>, without their separating commas.
\<close>

definition is_space :: "char \<Rightarrow> bool" where
  "is_space c = (c = CHR '' '' \<or> c = CHR 0x0A)"

fun words_acc :: "string \<Rightarrow> string \<Rightarrow> string list" where
  "words_acc cur [] = (if cur = [] then [] else [cur])"
| "words_acc cur (c # cs) =
     (if is_space c then (if cur = [] then words_acc [] cs else cur # words_acc [] cs)
      else words_acc (cur @ [c]) cs)"

definition sql_words :: "string \<Rightarrow> string list" where
  "sql_words s = words_acc [] s"

definition strip_comma :: "string \<Rightarrow> string" where
  "strip_comma word = (if word \<noteq> [] \<and> last word = CHR '','' then butlast word else word)"

definition select_columns :: "string \<Rightarrow> string list" where
  "select_columns sql =
     map strip_comma
       (takeWhile (\<lambda>word. word \<noteq> ''FROM'')
          (tl (dropWhile (\<lambda>word. word \<noteq> ''SELECT'') (sql_words sql))))"

text \<open>The attributes of a survey record, as the survey query selects them.\<close>

definition survey_record_attributes :: "string list" where
  "survey_record_attributes =
     [''survey_id'', ''respondent_id'', ''survey_date'', ''location'', ''respondent_type'',
      ''questions_responses'', ''metadata'', ''created_at'', ''updated_at'']"

fun obj_keys :: "pyobj \<Rightarrow> string list" where
  "obj_keys (PyDict kvs) = map fst kvs"
| "obj_keys _ = []"

definition full_survey_record :: "pyobj \<Rightarrow> bool" where
  "full_survey_record obj = list_all (\<lambda>a. a \<in> set (obj_keys obj)) survey_record_attributes"

text \<open>The list under the key \<open>matching_surveys\<close> of a serialised response.\<close>

fun matching_surveys :: "call_tool_result \<Rightarrow> pyobj list" where
  "matching_surveys (CallToolResult [TextContent (Json_dumps (PyDict kvs))]) =
     (case map_of kvs ''matching_surveys'' of Some (PyList xs) \<Rightarrow> xs | _ \<Rightarrow> [])"
| "matching_surveys _ = []"

text \<open>
  How many of the five optional filter arguments are supplied (not \<open>None\<close>), and how
  many of them are true under truth value testing.
\<close>

definition filter_values ::
  "int option \<Rightarrow> string option \<Rightarrow> string option \<Rightarrow> string option \<Rightarrow> string option \<Rightarrow> pyval list" where
  "filter_values survey_id location date_from date_to respondent_type =
     [of_opt_int survey_id, of_opt_str location, of_opt_str date_from, of_opt_str date_to,
      of_opt_str respondent_type]"

definition present_count ::
  "int option \<Rightarrow> string option \<Rightarrow> string option \<Rightarrow> string option \<Rightarrow> string option \<Rightarrow> nat" where
  "present_count survey_id location date_from date_to respondent_type =
     length (filter (\<lambda>v. v \<noteq> VNone)
       (filter_values survey_id location date_from date_to respondent_type))"

definition truthy_count ::
  "int option \<Rightarrow> string option \<Rightarrow> string option \<Rightarrow> string option \<Rightarrow> string option \<Rightarrow> nat" where
  "truthy_count survey_id location date_from date_to respondent_type =
     length (filter truthy (filter_values survey_id location date_from date_to respondent_type))"

section \<open>The query builder in the specification's words\<close>

text \<open>
  The specification describes the built query as an ordered list of predicate fragments
  in the fixed order identifier, location, date-from, date-to, respondent-type, each kept
  only if its source value counts, rendered in one pass with placeholders numbered in
  append order.  Each entry holds the fragment, the source value that is tested and the
  value that is bound.
\<close>

definition filter_table ::
  "int option \<Rightarrow> string option \<Rightarrow> string option \<Rightarrow> string option \<Rightarrow> string option
     \<Rightarrow> (string \<times> pyval \<times> pyval) list" where
  "filter_table survey_id location date_from date_to respondent_type =
     [('' AND survey_id = $'', of_opt_int survey_id, of_opt_int survey_id),
      ('' AND location ILIKE $'', of_opt_str location,
         VStr (''%'' @ py_str (of_opt_str location) @ ''%'')),
      ('' AND survey_date >= $'', of_opt_str date_from, of_opt_str date_from),
      ('' AND survey_date <= $'', of_opt_str date_to, of_opt_str date_to),
      ('' AND respondent_type = $'', of_opt_str respondent_type, of_opt_str respondent_type)]"

definition render_fragments :: "(string \<times> pyval \<times> pyval) list \<Rightarrow> string" where
  "render_fragments fs =
     concat (map (\<lambda>(n, (frag, src, bound)). frag @ str_nat n) (zip [1..<Suc (length fs)] fs))"

definition build_survey_query_spec ::
  "int option \<Rightarrow> string option \<Rightarrow> string option \<Rightarrow> string option \<Rightarrow> string option \<Rightarrow> int
     \<Rightarrow> string \<times> pyval list" where
  "build_survey_query_spec survey_id location date_from date_to respondent_type limit =
     (let fs = filter (\<lambda>(frag, src, bound). truthy src)
                 (filter_table survey_id location date_from date_to respondent_type)
      in (base_query @ render_fragments fs @ '' ORDER BY survey_date DESC LIMIT '' @ str_int limit,
          map (\<lambda>(frag, src, bound). bound) fs))"

section \<open>A test double for the database\<close>

text \<open>
  A connector that always produces a connection and a driver that answers a statement
  with the rows of a fixed table, projected to the statement's select list; validators
  that accept exactly the values of the declared type; and a
  \<^verbatim>\<open>ReadResourceResult\<close> that, as it takes resource contents only, accepts no
  \<open>TextContent\<close>.
\<close>

definition projecting_fetch :: "row list \<Rightarrow> world \<Rightarrow> string \<Rightarrow> pyval list \<Rightarrow> pyexc + row list" where
  "projecting_fetch tbl w sql params =
     Inr (map (\<lambda>r. map (\<lambda>c. (c, case map_of r c of None \<Rightarrow> VNone | Some v \<Rightarrow> v))
                 (select_columns sql)) tbl)"

definition strict_int :: "pyval \<Rightarrow> int option" where
  "strict_int v = (case v of VInt i \<Rightarrow> Some i | _ \<Rightarrow> None)"

definition strict_str :: "pyval \<Rightarrow> string option" where
  "strict_str v = (case v of VStr s \<Rightarrow> Some s | _ \<Rightarrow> None)"

definition fixture_env :: "row list \<Rightarrow> env" where
  "fixture_env tbl =
     \<lparr>getconn = (\<lambda>w. None),
      conn_fetch = projecting_fetch tbl,
      validate_int = strict_int,
      validate_str = strict_str,
      validation_message = (\<lambda>bad. ''validation error: '' @ join '', '' bad),
      resource_contents_valid = (\<lambda>contents. contents = [])\<rparr>"

definition fixture_row :: row where
  "fixture_row =
     [(''survey_id'', VInt 42), (''respondent_id'', VInt 7), (''survey_date'', VStr ''2024-05-01''),
      (''location'', VStr ''Springfield''), (''respondent_type'', VStr ''farmer''),
      (''questions_responses'', VStr ''{}''), (''metadata'', VStr ''{}''),
      (''created_at'', VStr ''2024-05-02''), (''updated_at'', VStr ''2024-05-03'')]"

definition world0 :: world where
  "world0 = \<lparr>opened = 0, closed = 0, executed = []\<rparr>"

definition ready :: AlloyDBConnection where
  "ready = \<lparr>has_getconn = True\<rparr>"

definition raising_env :: "pyexc \<Rightarrow> env" where
  "raising_env e = (fixture_env [])\<lparr>conn_fetch := (\<lambda>w sql params. Inl e)\<rparr>"

text \<open>
  A second driver, for statements of the shape the search tool sends: a plain column
  list and conditions \<open>questions_responses::text ILIKE $n\<close>.  It keeps the rows of
  a fixed table whose \<open>questions_responses\<close> text contains, without regard to case,
  the text between the two \<open>%\<close> of every bound parameter, and projects them to the
  statement's select list.  Wildcard characters inside the text are taken literally, a
  row without the column matches nothing, and the ordering and the limit are not
  interpreted.
\<close>

definition lower_char :: "char \<Rightarrow> char" where
  "lower_char c =
     (case map_of (zip ''ABCDEFGHIJKLMNOPQRSTUVWXYZ'' ''abcdefghijklmnopqrstuvwxyz'') c of
        None \<Rightarrow> c
      | Some l \<Rightarrow> l)"

fun contains :: "string \<Rightarrow> string \<Rightarrow> bool" where
  "contains needle [] = (needle = [])"
| "contains needle (c # cs) = (take (length needle) (c # cs) = needle \<or> contains needle cs)"

definition ilike :: "string \<Rightarrow> string \<Rightarrow> bool" where
  "ilike txt pattern = contains (map lower_char (butlast (tl pattern))) (map lower_char txt)"

definition search_fetch :: "row list \<Rightarrow> world \<Rightarrow> string \<Rightarrow> pyval list \<Rightarrow> pyexc + row list" where
  "search_fetch tbl w sql params =
     Inr (map (\<lambda>r. map (\<lambda>c. (c, case map_of r c of None \<Rightarrow> VNone | Some v \<Rightarrow> v))
                 (select_columns sql))
            (filter (\<lambda>r. case map_of r ''questions_responses'' of
                            None \<Rightarrow> False
                          | Some v \<Rightarrow> list_all (\<lambda>p. ilike (py_str v) (py_str p)) params)
               tbl))"

definition search_env :: "row list \<Rightarrow> env" where
  "search_env tbl = (fixture_env tbl)\<lparr>conn_fetch := search_fetch tbl\<rparr>"

abbreviation dq :: string where
  "dq \<equiv> [CHR 0x22]"

definition water_row :: row where
  "water_row =
     [(''survey_id'', VInt 42), (''respondent_id'', VInt 7), (''survey_date'', VStr ''2024-05-01''),
      (''location'', VStr ''Springfield''), (''respondent_type'', VStr ''farmer''),
      (''questions_responses'',
         VStr (''{'' @ dq @ ''Water source?'' @ dq @ '': '' @ dq @ ''well'' @ dq @ ''}'')),
      (''metadata'', VStr ''{}''),
      (''created_at'', VStr ''2024-05-02''), (''updated_at'', VStr ''2024-05-03'')]"

definition school_row :: row where
  "school_row =
     [(''survey_id'', VInt 43), (''respondent_id'', VInt 8), (''survey_date'', VStr ''2024-06-01''),
      (''location'', VStr ''Shelbyville''), (''respondent_type'', VStr ''teacher''),
      (''questions_responses'',
         VStr (''{'' @ dq @ ''School distance?'' @ dq @ '': '' @ dq @ ''2 km'' @ dq @ ''}'')),
      (''metadata'', VStr ''{}''),
      (''created_at'', VStr ''2024-06-02''), (''updated_at'', VStr ''2024-06-03'')]"

section \<open>Facts about the rendering of integers and about placeholders\<close>

lemma str_nat_digit: "n < 10 \<Longrightarrow> str_nat n = [digit_char n]"
  by (simp add: str_nat.simps)

lemma str_nat_small:
  "str_nat (Suc 0) = ''1''"
  "str_nat (Suc (Suc 0)) = ''2''"
  "str_nat (Suc (Suc (Suc 0))) = ''3''"
  "str_nat (Suc (Suc (Suc (Suc 0)))) = ''4''"
  "str_nat (Suc (Suc (Suc (Suc (Suc 0))))) = ''5''"
  by (simp_all add: str_nat_digit digit_char_def)

lemma digit_char_is_digit: "d < 10 \<Longrightarrow> is_digit (digit_char d)"
proof -
  assume "d < 10"
  then have "d \<in> {0, 1, 2, 3, 4, 5, 6, 7, 8, 9}" by auto
  then show ?thesis
    by (auto simp: digit_char_def is_digit_def)
qed

lemma str_nat_digits: "set (str_nat n) \<subseteq> Collect is_digit"
proof (induction n rule: str_nat.induct)
  case (1 n)
  show ?case
  proof (cases "n < 10")
    case True
    then show ?thesis by (simp add: str_nat_digit digit_char_is_digit)
  next
    case False
    then have "str_nat n = str_nat (n div 10) @ [digit_char (n mod 10)]"
      by (subst str_nat.simps) simp
    with 1 False show ?thesis by (simp add: digit_char_is_digit)
  qed
qed

lemma str_nat_no_dollar: "CHR ''$'' \<notin> set (str_nat n)"
proof
  assume "CHR ''$'' \<in> set (str_nat n)"
  with str_nat_digits [of n] have "is_digit CHR ''$''" by blast
  then show False by (simp add: is_digit_def)
qed

lemma str_int_no_dollar: "CHR ''$'' \<notin> set (str_int i)"
  by (simp add: str_int_def str_nat_no_dollar)

lemma placeholders_no_dollar: "CHR ''$'' \<notin> set s \<Longrightarrow> placeholders s = []"
  by (induction s) auto

lemma placeholders_str_int: "placeholders (str_int i) = []"
  by (simp add: placeholders_no_dollar str_int_no_dollar)

lemma placeholders_base_query: "placeholders (base_query @ s) = placeholders s"
  by (simp add: base_query_def)

section \<open>The survey query: placeholders, parameters and order\<close>

lemma get_survey_data_query_refines:
  "get_survey_data_query survey_id location date_from date_to respondent_type limit =
     build_survey_query_spec survey_id location date_from date_to respondent_type limit"
  by (simp add: get_survey_data_query_def build_survey_query_spec_def filter_table_def
      render_fragments_def Let_def)

lemma placeholders_survey:
  "placeholders (fst (get_survey_data_query survey_id location date_from date_to respondent_type limit)) =
     map str_nat [1..<Suc (truthy_count survey_id location date_from date_to respondent_type)]"
  by (simp add: get_survey_data_query_def truthy_count_def filter_values_def Let_def
      placeholders_base_query placeholders_str_int str_nat_small is_digit_def)

lemma length_params_survey:
  "length (snd (get_survey_data_query survey_id location date_from date_to respondent_type limit)) =
     truthy_count survey_id location date_from date_to respondent_type"
  by (simp add: get_survey_data_query_def truthy_count_def filter_values_def Let_def)

text \<open>
  Claim C1, as amended.  For every filter set in which \<open>k\<close> of the five optional
  fields are supplied with a value that is true under truth value testing (a non-zero
  identifier, a non-empty string), the statement text carries exactly the placeholders
  \<open>$1\<close> to \<open>$k\<close> in this order, the parameter list has length \<open>k\<close>, and
  statement and parameters are those the specification describes: the fragments of the
  fields that count, in the fixed order identifier, location, date-from, date-to,
  respondent-type, numbered as they are appended.
\<close>

theorem get_survey_data_query_truthy_fields:
  assumes "truthy_count survey_id location date_from date_to respondent_type = k"
  shows "placeholders (fst (get_survey_data_query survey_id location date_from date_to respondent_type limit)) =
           map str_nat [1..<Suc k]
       \<and> length (snd (get_survey_data_query survey_id location date_from date_to respondent_type limit)) = k
       \<and> get_survey_data_query survey_id location date_from date_to respondent_type limit =
           build_survey_query_spec survey_id location date_from date_to respondent_type limit"
  using assms placeholders_survey length_params_survey get_survey_data_query_refines by blast

theorem get_survey_data_query_truthy_fields_witness:
  "truthy_count (Some 5) (Some ''x'') None (Some ''2024-01-01'') None = 3
   \<and> placeholders (fst (get_survey_data_query (Some 5) (Some ''x'') None (Some ''2024-01-01'') None 100)) =
        [''1'', ''2'', ''3'']
   \<and> length (snd (get_survey_data_query (Some 5) (Some ''x'') None (Some ''2024-01-01'') None 100)) = 3"
proof -
  have k: "truthy_count (Some 5) (Some ''x'') None (Some ''2024-01-01'') None = 3"
    by (simp add: truthy_count_def filter_values_def)
  have m: "map str_nat [1..<Suc 3] = [''1'', ''2'', ''3'']"
    by (simp add: upt_rec str_nat_digit digit_char_def)
  note t = get_survey_data_query_truthy_fields [OF k, of 100]
  from t have "placeholders (fst (get_survey_data_query (Some 5) (Some ''x'') None (Some ''2024-01-01'') None 100)) =
      map str_nat [1..<Suc 3]"
    by (rule conjunct1)
  with m have a: "placeholders (fst (get_survey_data_query (Some 5) (Some ''x'') None (Some ''2024-01-01'') None 100)) =
      [''1'', ''2'', ''3'']"
    by (simp only:)
  from t have b: "length (snd (get_survey_data_query (Some 5) (Some ''x'') None (Some ''2024-01-01'') None 100)) = 3"
    by blast
  from k a b show ?thesis by blast
qed

text \<open>
  Claim C1 as stated counts the fields that are present.  With an empty location one field
  is present, yet the statement has no placeholder and no parameter is bound.
\<close>

theorem get_survey_data_query_present_counterexample:
  "present_count None (Some []) None None None = 1
   \<and> placeholders (fst (get_survey_data_query None (Some []) None None None 100)) = []
   \<and> snd (get_survey_data_query None (Some []) None None None 100) = []"
  by (simp add: present_count_def filter_values_def get_survey_data_query_def Let_def
      placeholders_base_query placeholders_str_int)

text \<open>
  Claim C9.  A filter value that is supplied but false under truth value testing
  (identifier \<open>0\<close>, or an empty string for location, date-from, date-to or respondent
  type) is treated as absent: the built statement and its parameters are the ones built
  when the field is omitted.
\<close>

theorem get_survey_data_falsy_as_absent:
  "get_survey_data_query (Some 0) location date_from date_to respondent_type limit =
     get_survey_data_query None location date_from date_to respondent_type limit
   \<and> get_survey_data_query survey_id (Some []) date_from date_to respondent_type limit =
     get_survey_data_query survey_id None date_from date_to respondent_type limit
   \<and> get_survey_data_query survey_id location (Some []) date_to respondent_type limit =
     get_survey_data_query survey_id location None date_to respondent_type limit
   \<and> get_survey_data_query survey_id location date_from (Some []) respondent_type limit =
     get_survey_data_query survey_id location date_from None respondent_type limit
   \<and> get_survey_data_query survey_id location date_from date_to (Some []) limit =
     get_survey_data_query survey_id location date_from date_to None limit"
  by (simp add: get_survey_data_query_def)

section \<open>The data access layer releases its connection\<close>

lemma execute_query_balanced:
  "opened (snd (execute_query E self query params w)) + closed w =
     opened w + closed (snd (execute_query E self query params w))"
  by (simp add: execute_query_def Let_def split: option.splits)

text \<open>
  Claim C7.  Once \<^verbatim>\<open>execute_query\<close> has acquired a connection, the call ends
  with whatever the fetch produced (rows, an exception of the driver, or a cancellation
  delivered at the fetch), and in each case exactly one connection was opened and exactly
  one was closed.
\<close>

theorem execute_query_releases:
  assumes "has_getconn self" and "getconn E w = None"
  shows "fst (execute_query E self query params w) =
           conn_fetch E (w\<lparr>opened := opened w + 1\<rparr>) query params
       \<and> opened (snd (execute_query E self query params w)) = opened w + 1
       \<and> closed (snd (execute_query E self query params w)) = closed w + 1"
  using assms by (simp add: execute_query_def Let_def)

theorem execute_query_releases_witness:
  "fst (execute_query (fixture_env [fixture_row]) ready ''SELECT survey_id FROM surveys'' [] world0) =
      Inr [[(''survey_id'', VInt 42)]]
   \<and> closed (snd (execute_query (fixture_env [fixture_row]) ready ''SELECT survey_id FROM surveys'' [] world0)) = 1
   \<and> fst (execute_query (raising_env (DriverError ''syntax error'')) ready ''SELEC'' [] world0) =
      Inl (DriverError ''syntax error'')
   \<and> closed (snd (execute_query (raising_env (DriverError ''syntax error'')) ready ''SELEC'' [] world0)) = 1
   \<and> fst (execute_query (raising_env CancelledError) ready stats_query [] world0) = Inl CancelledError
   \<and> closed (snd (execute_query (raising_env CancelledError) ready stats_query [] world0)) = 1"
proof -
  have r: "has_getconn ready" by (simp add: ready_def)
  have g1: "getconn (fixture_env [fixture_row]) world0 = None" by (simp add: fixture_env_def)
  have g2: "getconn (raising_env e) world0 = None" for e
    by (simp add: raising_env_def fixture_env_def)
  have f1: "conn_fetch (fixture_env [fixture_row]) w ''SELECT survey_id FROM surveys'' [] =
      Inr [[(''survey_id'', VInt 42)]]" for w
    by (simp add: fixture_env_def projecting_fetch_def select_columns_def sql_words_def
        is_space_def strip_comma_def fixture_row_def)
  have f2: "conn_fetch (raising_env e) w q ps = Inl e" for e w q ps
    by (simp add: raising_env_def)
  note a = execute_query_releases [OF r g1, of "''SELECT survey_id FROM surveys''" "[]"]
  note b = execute_query_releases [OF r g2, of "DriverError ''syntax error''" "''SELEC''" "[]"]
  note c = execute_query_releases [OF r g2, of CancelledError stats_query "[]"]
  from a b c show ?thesis
    by (simp add: f1 f2 world0_def)
qed

section \<open>The handlers without a connection\<close>

text \<open>
  Claim C10.  Whatever the tool name and the arguments, \<^verbatim>\<open>call_tool\<close> invoked
  while the process-wide connection is unset returns the error text
  \<open>Error: Database connection not initialized\<close> as a regular response, raises nothing
  and leaves the database untouched.
\<close>

theorem call_tool_uninitialized:
  "call_tool E None name arguments w =
     (Inr (CallToolResult [TextContent (Plain ''Error: Database connection not initialized'')]), w)"
  by (simp add: call_tool_def)

text \<open>
  Claim C6 asks that every resource read returns a response.  With the process-wide
  connection unset, \<^verbatim>\<open>read_resource\<close> raises \<open>RuntimeError\<close> instead: its guard
  stands before the \<^verbatim>\<open>try\<close> block, so the exception leaves the handler.
\<close>

theorem read_resource_uninitialized_raises:
  "read_resource E None uri w = (Inl (RuntimeError ''Database connection not initialized''), w)"
  by (simp add: read_resource_def)

text \<open>
  What the two handlers do catch.  Nothing but a cancellation leaves \<^verbatim>\<open>call_tool\<close>,
  and an unknown tool name is answered with an error text.  In \<^verbatim>\<open>read_resource\<close>
  every response, the error text of the \<^verbatim>\<open>except\<close> clause included, is built as
  a \<open>ReadResourceResult\<close> around a \<open>TextContent\<close>: where the library accepts
  that, nothing but a cancellation leaves the handler once the connection is set; where
  it does not, every read raises.
\<close>

lemma is_Exception_iff: "is_Exception e \<longleftrightarrow> e \<noteq> CancelledError"
  by (cases e) simp_all

lemma call_tool_escapes_only_cancellation:
  assumes "fst (call_tool E db_connection name arguments w) = Inl e"
  shows "e = CancelledError"
  using assms
  by (auto simp: call_tool_def is_Exception_iff split: option.splits prod.splits sum.splits if_splits)

lemma call_tool_unknown_tool:
  assumes "name \<noteq> ''fetch_survey_data''" and "name \<noteq> ''get_survey_summary''"
      and "name \<noteq> ''search_surveys_by_question''"
  shows "call_tool E (Some db) name arguments w =
           (Inr (CallToolResult [TextContent (Plain
              (''Error: Unknown tool '' @ apostrophe @ name @ apostrophe))]), w)"
  using assms by (simp add: call_tool_def call_tool_try_def)

lemma read_resource_try_raises:
  assumes "\<forall>contents. contents \<noteq> [] \<longrightarrow> \<not> resource_contents_valid E contents"
  shows "\<exists>e. fst (read_resource_try E db uri w) = Inl e"
  using assms
  by (auto simp: read_resource_try_def ReadResourceResult_init_def
      split: prod.splits sum.splits)

lemma read_resource_accepting_escapes_only_cancellation:
  assumes "\<forall>contents. resource_contents_valid E contents"
      and "fst (read_resource E (Some db) uri w) = Inl e"
  shows "e = CancelledError"
  using assms
  by (auto simp: read_resource_def ReadResourceResult_init_def is_Exception_iff
      split: prod.splits sum.splits if_splits)

lemma read_resource_rejecting_raises:
  assumes "\<forall>contents. contents \<noteq> [] \<longrightarrow> \<not> resource_contents_valid E contents"
  shows "\<exists>e. fst (read_resource E db_connection uri w) = Inl e"
proof (cases db_connection)
  case None
  then show ?thesis by (simp add: read_resource_def)
next
  case (Some db)
  from read_resource_try_raises [OF assms] obtain e where
    e: "fst (read_resource_try E db uri w) = Inl e" by blast
  obtain r w' where p: "read_resource_try E db uri w = (r, w')" by (cases "read_resource_try E db uri w")
  with e have r: "r = Inl e" by simp
  show ?thesis
    using assms Some p r
    by (simp add: read_resource_def ReadResourceResult_init_def)
qed

section \<open>The search tool\<close>

text \<open>
  Claim C4.  With both \<open>question_text\<close> and \<open>response_text\<close> absent (missing or
  \<open>None\<close>), the search tool answers with its error text, builds no statement, and
  no statement reaches the database; the last holds whether or not the process-wide
  connection is set.
\<close>

theorem search_without_text_rejected:
  assumes "dict_get arguments ''question_text'' VNone = VNone"
      and "dict_get arguments ''response_text'' VNone = VNone"
  shows "call_tool E (Some db) ''search_surveys_by_question'' arguments w =
           (Inr (CallToolResult [TextContent (Plain
              ''Error: At least one search parameter (question_text or response_text) is required'')]), w)
       \<and> build_search_query (dict_get arguments ''question_text'' VNone)
            (dict_get arguments ''response_text'' VNone) (dict_get arguments ''limit'' (VInt 50)) = None
       \<and> snd (call_tool E db_connection ''search_surveys_by_question'' arguments w) = w"
proof -
  have b: "build_search_query (dict_get arguments ''question_text'' VNone)
            (dict_get arguments ''response_text'' VNone) (dict_get arguments ''limit'' (VInt 50)) = None"
    using assms by (simp add: build_search_query_def search_conditions_def)
  have t: "call_tool_try E d ''search_surveys_by_question'' arguments w =
           (Inr (CallToolResult [TextContent (Plain
              ''Error: At least one search parameter (question_text or response_text) is required'')]), w)" for d
    using b by (simp add: call_tool_try_def)
  have c: "call_tool E (Some db) ''search_surveys_by_question'' arguments w =
           (Inr (CallToolResult [TextContent (Plain
              ''Error: At least one search parameter (question_text or response_text) is required'')]), w)"
    by (simp add: call_tool_def t)
  have s: "snd (call_tool E db_connection ''search_surveys_by_question'' arguments w) = w"
    by (cases db_connection) (simp_all add: call_tool_def t)
  from b c s show ?thesis by blast
qed

theorem search_without_text_rejected_witness:
  "call_tool (fixture_env [fixture_row]) (Some ready) ''search_surveys_by_question''
       [''limit'' \<mapsto> VInt 10] world0 =
     (Inr (CallToolResult [TextContent (Plain
        ''Error: At least one search parameter (question_text or response_text) is required'')]), world0)"
proof -
  have q: "dict_get [''limit'' \<mapsto> VInt 10] ''question_text'' VNone = VNone"
    by (simp add: dict_get_def)
  have r: "dict_get [''limit'' \<mapsto> VInt 10] ''response_text'' VNone = VNone"
    by (simp add: dict_get_def)
  from search_without_text_rejected [OF q r] show ?thesis by blast
qed

lemma search_conditions_cases:
  "search_conditions question_text response_text =
     (if truthy question_text then
        (if truthy response_text then
           ([''questions_responses::text ILIKE $1'', ''questions_responses::text ILIKE $2''],
            [VStr (''%'' @ py_str question_text @ ''%''), VStr (''%'' @ py_str response_text @ ''%'')])
         else ([''questions_responses::text ILIKE $1''], [VStr (''%'' @ py_str question_text @ ''%'')]))
      else
        (if truthy response_text then
           ([''questions_responses::text ILIKE $1''], [VStr (''%'' @ py_str response_text @ ''%'')])
         else ([], [])))"
  by (simp add: search_conditions_def Let_def str_nat_small)

text \<open>
  Claim C5, as amended.  When exactly one of the two text arguments is true under truth
  value testing, the statement has the single condition
  \<open>questions_responses::text ILIKE $1\<close> and the one parameter is that argument
  between two \<open>%\<close>; when both are, it has two such conditions joined by \<open>AND\<close>,
  numbered \<open>$1\<close> and \<open>$2\<close>, each bound to its own argument between two
  \<open>%\<close>.
\<close>

theorem build_search_query_predicates:
  "(let select_from =
          nl @
          ''            SELECT '' @ nl @
          ''                survey_id,'' @ nl @
          ''                respondent_id,'' @ nl @
          ''                survey_date,'' @ nl @
          ''                location,'' @ nl @
          ''                respondent_type,'' @ nl @
          ''                questions_responses,'' @ nl @
          ''                created_at'' @ nl @
          ''            FROM surveys'' @ nl @
          ''            WHERE '';
        order_limit =
          nl @
          ''            ORDER BY survey_date DESC'' @ nl @
          ''            LIMIT '' @ py_str limit @ nl @
          ''            ''
    in (truthy question_text \<and> \<not> truthy response_text \<longrightarrow>
          build_search_query question_text response_text limit =
            Some (select_from @ ''questions_responses::text ILIKE $1'' @ order_limit,
                  [VStr (''%'' @ py_str question_text @ ''%'')]))
     \<and> (\<not> truthy question_text \<and> truthy response_text \<longrightarrow>
          build_search_query question_text response_text limit =
            Some (select_from @ ''questions_responses::text ILIKE $1'' @ order_limit,
                  [VStr (''%'' @ py_str response_text @ ''%'')]))
     \<and> (truthy question_text \<and> truthy response_text \<longrightarrow>
          build_search_query question_text response_text limit =
            Some (select_from @
                  ''questions_responses::text ILIKE $1 AND questions_responses::text ILIKE $2'' @
                  order_limit,
                  [VStr (''%'' @ py_str question_text @ ''%''),
                   VStr (''%'' @ py_str response_text @ ''%'')])))"
  by (simp add: build_search_query_def search_conditions_cases search_query_def Let_def)

theorem build_search_query_predicates_witness:
  "build_search_query (VStr ''abc'') VNone (VInt 50) =
     Some (nl @
          ''            SELECT '' @ nl @
          ''                survey_id,'' @ nl @
          ''                respondent_id,'' @ nl @
          ''                survey_date,'' @ nl @
          ''                location,'' @ nl @
          ''                respondent_type,'' @ nl @
          ''                questions_responses,'' @ nl @
          ''                created_at'' @ nl @
          ''            FROM surveys'' @ nl @
          ''            WHERE questions_responses::text ILIKE $1'' @ nl @
          ''            ORDER BY survey_date DESC'' @ nl @
          ''            LIMIT 50'' @ nl @
          ''            '', [VStr ''%abc%''])
   \<and> map_option snd (build_search_query (VStr ''abc'') (VStr ''yes'') (VInt 50)) =
        Some [VStr ''%abc%'', VStr ''%yes%'']"
proof -
  have l: "str_int 50 = ''50''"
    by (simp add: str_int_def str_nat.simps digit_char_def)
  from build_search_query_predicates [of "VInt 50" "VStr ''abc''" VNone]
       build_search_query_predicates [of "VInt 50" "VStr ''abc''" "VStr ''yes''"]
  show ?thesis
    by (simp add: Let_def l)
qed

text \<open>
  Claim C5 as stated speaks of a text argument that is present.  An empty
  \<open>question_text\<close> is present, yet no condition is produced: the search is rejected.
\<close>

theorem build_search_query_empty_text_counterexample:
  "build_search_query (VStr []) VNone (VInt 50) = None
   \<and> fst (call_tool (fixture_env [fixture_row]) (Some ready) ''search_surveys_by_question''
             [''question_text'' \<mapsto> VStr []] world0) =
       Inr (CallToolResult [TextContent (Plain
         ''Error: At least one search parameter (question_text or response_text) is required'')])"
  by (simp add: build_search_query_def search_conditions_cases call_tool_def call_tool_try_def
      dict_get_def)

section \<open>Filter values never enter the statement text\<close>

lemma survey_sql_flags:
  assumes "map truthy (filter_values s l f t r) = map truthy (filter_values s' l' f' t' r')"
  shows "fst (get_survey_data_query s l f t r lim) = fst (get_survey_data_query s' l' f' t' r' lim)"
proof -
  from assms have
    "truthy (of_opt_int s) = truthy (of_opt_int s')"
    "truthy (of_opt_str l) = truthy (of_opt_str l')"
    "truthy (of_opt_str f) = truthy (of_opt_str f')"
    "truthy (of_opt_str t) = truthy (of_opt_str t')"
    "truthy (of_opt_str r) = truthy (of_opt_str r')"
    by (simp_all add: filter_values_def)
  then show ?thesis
    by (simp add: get_survey_data_query_def Let_def)
qed

lemma search_sql_flags:
  assumes "truthy q = truthy q'" and "truthy a = truthy a'"
  shows "map_option fst (build_search_query q a lim) = map_option fst (build_search_query q' a' lim)"
  using assms by (simp add: build_search_query_def search_conditions_cases)

text \<open>
  Claim C2, as amended.  For two filter sets in which the same fields are true under
  truth value testing, and with equal limits, the survey statement texts are identical,
  and the filter values are found in the parameter list only (the location between two
  \<open>%\<close>).  The same holds for two search argument sets: the statement text (or the
  rejection) depends on the truth values of the two texts and on the limit only, and the
  texts are found in the parameter list, each between two \<open>%\<close>.
\<close>

theorem sql_text_independent_of_filter_values:
  "(map truthy (filter_values survey_id location date_from date_to respondent_type) =
      map truthy (filter_values survey_id' location' date_from' date_to' respondent_type') \<longrightarrow>
      fst (get_survey_data_query survey_id location date_from date_to respondent_type limit) =
      fst (get_survey_data_query survey_id' location' date_from' date_to' respondent_type' limit))
   \<and> snd (get_survey_data_query survey_id location date_from date_to respondent_type limit) =
       map (\<lambda>(frag, src, bound). bound)
         (filter (\<lambda>(frag, src, bound). truthy src)
            (filter_table survey_id location date_from date_to respondent_type))
   \<and> (truthy question_text = truthy question_text' \<and> truthy response_text = truthy response_text' \<longrightarrow>
        map_option fst (build_search_query question_text response_text search_limit) =
        map_option fst (build_search_query question_text' response_text' search_limit))
   \<and> map_option snd (build_search_query question_text response_text search_limit) =
       (if truthy question_text \<or> truthy response_text then
          Some (map (\<lambda>v. VStr (''%'' @ py_str v @ ''%'')) (filter truthy [question_text, response_text]))
        else None)"
proof -
  have "snd (get_survey_data_query survey_id location date_from date_to respondent_type limit) =
       map (\<lambda>(frag, src, bound). bound)
         (filter (\<lambda>(frag, src, bound). truthy src)
            (filter_table survey_id location date_from date_to respondent_type))"
    by (simp add: get_survey_data_query_refines build_survey_query_spec_def Let_def)
  moreover have "map_option snd (build_search_query question_text response_text search_limit) =
       (if truthy question_text \<or> truthy response_text then
          Some (map (\<lambda>v. VStr (''%'' @ py_str v @ ''%'')) (filter truthy [question_text, response_text]))
        else None)"
    by (simp add: build_search_query_def search_conditions_cases)
  ultimately show ?thesis
    using survey_sql_flags search_sql_flags by blast
qed

theorem sql_text_independent_of_filter_values_witness:
  "fst (get_survey_data_query (Some 1) (Some ''north'') None None None 100) =
     fst (get_survey_data_query (Some 42) (Some ''x%'' ) None None None 100)
   \<and> snd (get_survey_data_query (Some 42) (Some ''x%'') None None None 100) = [VInt 42, VStr ''%x%%'']
   \<and> map_option fst (build_search_query (VStr ''a'') VNone (VInt 50)) =
      map_option fst (build_search_query (VStr ''b'') (VStr []) (VInt 50))
   \<and> map_option snd (build_search_query (VStr ''b'') (VStr []) (VInt 50)) = Some [VStr ''%b%'']"
proof -
  note t = sql_text_independent_of_filter_values
     [of "Some 1" "Some ''north''" None None None "Some 42" "Some ''x%''" None None None 100
         "VStr ''a''" "VStr ''b''" VNone "VStr []" "VInt 50"]
  note u = sql_text_independent_of_filter_values
     [of "Some 42" "Some ''x%''" None None None "Some 42" "Some ''x%''" None None None 100
         "VStr ''b''" "VStr ''b''" "VStr []" "VStr []" "VInt 50"]
  from t u show ?thesis
    by (simp add: filter_values_def filter_table_def)
qed

text \<open>
  Claim C2 as stated compares filter sets in which the same fields are present.  An empty
  and a non-empty respondent type are both present, with equal limits, and the two
  statement texts differ.
\<close>

theorem sql_text_presence_counterexample:
  "map (\<lambda>v. v \<noteq> VNone) (filter_values None None None None (Some [])) =
     map (\<lambda>v. v \<noteq> VNone) (filter_values None None None None (Some ''farmer''))
   \<and> fst (get_survey_data_query None None None None (Some []) 100) \<noteq>
     fst (get_survey_data_query None None None None (Some ''farmer'') 100)"
  by (simp add: filter_values_def get_survey_data_query_def Let_def)

section \<open>The limit\<close>

lemma snd_call_tool:
  "snd (call_tool E (Some db) name arguments w) = snd (call_tool_try E db name arguments w)"
  by (simp add: call_tool_def split: prod.splits sum.splits)

lemma init_limit_rejected:
  assumes "arguments ''limit'' = Some v" and "validate_int E v = None"
  shows "\<exists>bad. ''limit'' \<in> set bad \<and>
           SurveyQueryParams_init E arguments = Inl (ValidationError (validation_message E bad))"
proof -
  define pre where "pre =
    (if optional_field (validate_int E) (arguments ''survey_id'') = None then [''survey_id''] else []) @
    (if optional_field (validate_str E) (arguments ''location'') = None then [''location''] else []) @
    (if optional_field (validate_str E) (arguments ''date_from'') = None then [''date_from''] else []) @
    (if optional_field (validate_str E) (arguments ''date_to'') = None then [''date_to''] else []) @
    (if optional_field (validate_str E) (arguments ''respondent_type'') = None
     then [''respondent_type''] else [])"
  have "defaulted_field (validate_int E) 100 (arguments ''limit'') = None"
    using assms by (simp add: defaulted_field_def)
  then have "SurveyQueryParams_init E arguments =
      Inl (ValidationError (validation_message E (pre @ [''limit''])))"
    unfolding SurveyQueryParams_init_def Let_def pre_def
    by (simp split: option.splits)
  then show ?thesis
    by (intro exI [of _ "pre @ [''limit'']"]) simp
qed

lemma init_limit_accepted:
  assumes "SurveyQueryParams_init E arguments = Inr p"
  shows "defaulted_field (validate_int E) 100 (arguments ''limit'') = Some (sqp_limit p)"
  using assms unfolding SurveyQueryParams_init_def Let_def
  by (auto split: option.splits)

lemma survey_sql_limit:
  "\<exists>q. fst (get_survey_data_query survey_id location date_from date_to respondent_type limit) =
         q @ '' ORDER BY survey_date DESC LIMIT '' @ str_int limit"
  by (simp add: get_survey_data_query_refines build_survey_query_spec_def Let_def)

text \<open>
  Claim C3, as amended.  In the fetch tool the limit goes through the integer validator
  of the typed parameter model before any statement is built: a supplied limit that the
  validator rejects makes the call answer with an error text that names the field, and
  nothing reaches the database; a limit that passes is the validator's integer (or the
  default 100), and it is this integer that the query builder receives.  The builder
  itself renders every integer, whatever its sign, in decimal after the fixed
  \<open>LIMIT\<close> keyword.
\<close>

theorem fetch_limit_validation:
  "(arguments ''limit'' = Some v \<and> validate_int E v = None \<longrightarrow>
      snd (call_tool E (Some db) ''fetch_survey_data'' arguments w) = w
      \<and> (\<exists>bad. ''limit'' \<in> set bad \<and>
            fst (call_tool E (Some db) ''fetch_survey_data'' arguments w) =
              Inr (CallToolResult [TextContent (Plain (''Error: '' @ validation_message E bad))])))
   \<and> (SurveyQueryParams_init E arguments = Inr p \<longrightarrow>
        (case arguments ''limit'' of None \<Rightarrow> sqp_limit p = 100
                                   | Some u \<Rightarrow> validate_int E u = Some (sqp_limit p))
        \<and> call_tool_try E db ''fetch_survey_data'' arguments w =
            (case get_survey_data E db (sqp_survey_id p) (sqp_location p) (sqp_date_from p)
                    (sqp_date_to p) (sqp_respondent_type p) (sqp_limit p) w of
               (Inl e, w') \<Rightarrow> (Inl e, w')
             | (Inr surveys, w') \<Rightarrow>
                 (Inr (CallToolResult [TextContent (Json_dumps (PyDict
                    [(''count'', Scalar (VInt (int (length surveys)))),
                     (''surveys'', PyList (map row_obj surveys))]))]), w')))
   \<and> (\<exists>q. fst (get_survey_data_query survey_id location date_from date_to respondent_type limit) =
             q @ '' ORDER BY survey_date DESC LIMIT '' @ str_int limit)"
proof -
  have a: "snd (call_tool E (Some db) ''fetch_survey_data'' arguments w) = w
      \<and> (\<exists>bad. ''limit'' \<in> set bad \<and>
            fst (call_tool E (Some db) ''fetch_survey_data'' arguments w) =
              Inr (CallToolResult [TextContent (Plain (''Error: '' @ validation_message E bad))]))"
    if "arguments ''limit'' = Some v" "validate_int E v = None"
  proof -
    from that init_limit_rejected [where arguments = arguments and v = v and E = E] obtain bad where
      b: "''limit'' \<in> set bad"
      and i: "SurveyQueryParams_init E arguments = Inl (ValidationError (validation_message E bad))"
      by blast
    from i have "call_tool E (Some db) ''fetch_survey_data'' arguments w =
        (Inr (CallToolResult [TextContent (Plain (''Error: '' @ validation_message E bad))]), w)"
      by (simp add: call_tool_def call_tool_try_def)
    with b show ?thesis by auto
  qed
  have b: "(case arguments ''limit'' of None \<Rightarrow> sqp_limit p = 100
                                   | Some u \<Rightarrow> validate_int E u = Some (sqp_limit p))"
    if "SurveyQueryParams_init E arguments = Inr p"
    using that init_limit_accepted [where arguments = arguments and p = p and E = E]
    by (simp add: defaulted_field_def split: option.splits)
  have c: "call_tool_try E db ''fetch_survey_data'' arguments w =
            (case get_survey_data E db (sqp_survey_id p) (sqp_location p) (sqp_date_from p)
                    (sqp_date_to p) (sqp_respondent_type p) (sqp_limit p) w of
               (Inl e, w') \<Rightarrow> (Inl e, w')
             | (Inr surveys, w') \<Rightarrow>
                 (Inr (CallToolResult [TextContent (Json_dumps (PyDict
                    [(''count'', Scalar (VInt (int (length surveys)))),
                     (''surveys'', PyList (map row_obj surveys))]))]), w'))"
    if "SurveyQueryParams_init E arguments = Inr p"
    using that by (simp add: call_tool_try_def)
  from a b c survey_sql_limit show ?thesis by blast
qed

theorem fetch_limit_validation_witness:
  "call_tool (fixture_env [fixture_row]) (Some ready) ''fetch_survey_data''
      [''limit'' \<mapsto> VStr ''ten''] world0 =
     (Inr (CallToolResult [TextContent (Plain ''Error: validation error: limit'')]), world0)"
proof -
  let ?E = "fixture_env [fixture_row]"
  let ?args = "[''limit'' \<mapsto> VStr ''ten'']"
  have h: "?args ''limit'' = Some (VStr ''ten'') \<and> validate_int ?E (VStr ''ten'') = None"
    by (simp add: fixture_env_def strict_int_def)
  note t = fetch_limit_validation [of ?args "VStr ''ten''" ?E ready world0]
  from t h have s: "snd (call_tool ?E (Some ready) ''fetch_survey_data'' ?args world0) = world0"
    by blast
  have "fst (call_tool ?E (Some ready) ''fetch_survey_data'' ?args world0) =
      Inr (CallToolResult [TextContent (Plain ''Error: validation error: limit'')])"
    by (simp add: call_tool_def call_tool_try_def SurveyQueryParams_init_def Let_def
        optional_field_def defaulted_field_def fixture_env_def strict_int_def)
  with s show ?thesis by (simp add: prod_eq_iff)
qed

text \<open>
  Claim C3 as stated has the limit validated to be positive.  A limit of \<open>-3\<close> passes
  the fetch tool and the statement sent to the database ends in \<open>LIMIT -3\<close>; the
  builder called with limit \<open>0\<close> produces \<open>LIMIT 0\<close>.
\<close>

theorem fetch_negative_limit_counterexample:
  "executed (snd (call_tool (fixture_env [fixture_row]) (Some ready) ''fetch_survey_data''
      [''limit'' \<mapsto> VInt (- 3)] world0)) =
     [(base_query @ '' ORDER BY survey_date DESC LIMIT -3'', [])]
   \<and> get_survey_data_query None None None None None 0 =
     (base_query @ '' ORDER BY survey_date DESC LIMIT 0'', [])"
proof -
  have l: "str_int (- 3) = ''-3''" "str_int 0 = ''0''"
    by (simp_all add: str_int_def str_nat_digit digit_char_def)
  have q: "get_survey_data_query None None None None None lim =
      (base_query @ '' ORDER BY survey_date DESC LIMIT '' @ str_int lim, [])" for lim
    by (simp add: get_survey_data_query_def)
  have i: "SurveyQueryParams_init (fixture_env [fixture_row]) [''limit'' \<mapsto> VInt (- 3)] =
      Inr \<lparr>sqp_survey_id = None, sqp_location = None, sqp_date_from = None, sqp_date_to = None,
           sqp_respondent_type = None, sqp_limit = - 3\<rparr>"
    by (simp add: SurveyQueryParams_init_def Let_def optional_field_def defaulted_field_def
        fixture_env_def strict_int_def)
  have e: "executed (snd (execute_query (fixture_env [fixture_row]) ready sql ps world0)) = [(sql, ps)]"
    for sql ps
    by (simp add: execute_query_def ready_def fixture_env_def world0_def Let_def)
  have t: "snd (call_tool_try (fixture_env [fixture_row]) ready ''fetch_survey_data''
      [''limit'' \<mapsto> VInt (- 3)] world0) =
      snd (execute_query (fixture_env [fixture_row]) ready
             (base_query @ '' ORDER BY survey_date DESC LIMIT -3'') [] world0)"
    by (simp add: call_tool_try_def i get_survey_data_def q l split: prod.splits sum.splits)
  have "executed (snd (call_tool (fixture_env [fixture_row]) (Some ready) ''fetch_survey_data''
      [''limit'' \<mapsto> VInt (- 3)] world0)) =
     [(base_query @ '' ORDER BY survey_date DESC LIMIT -3'', [])]"
    by (simp add: snd_call_tool t e)
  with q [of 0] l show ?thesis by simp
qed

section \<open>The columns of a search result\<close>

lemma select_columns_search_query:
  "select_columns (search_query conds limit) =
     [''survey_id'', ''respondent_id'', ''survey_date'', ''location'', ''respondent_type'',
      ''questions_responses'', ''created_at'']"
  by (simp add: select_columns_def search_query_def sql_words_def is_space_def strip_comma_def)

lemma select_columns_base_query:
  "select_columns (base_query @ rest) = survey_record_attributes"
  by (simp add: select_columns_def base_query_def sql_words_def is_space_def strip_comma_def
      survey_record_attributes_def)

lemma execute_query_rows:
  assumes "execute_query E db query params w = (Inr rows, w')"
  shows "\<exists>w1. conn_fetch E w1 query params = Inr rows"
  using assms
  by (auto simp: execute_query_def Let_def split: if_splits option.splits)

lemma obj_keys_row_obj: "obj_keys (row_obj r) = map fst r"
  by (simp add: row_obj_def comp_def case_prod_unfold)

lemma search_driver_projects:
  "\<forall>w conds lim ps rows.
     conn_fetch (search_env tbl) w (search_query conds lim) ps = Inr rows \<longrightarrow>
     list_all (\<lambda>r. map fst r = select_columns (search_query conds lim)) rows"
  by (auto simp: search_env_def search_fetch_def list_all_iff comp_def)

lemma search_fetch_water:
  "search_fetch [water_row, school_row] w (search_query conds lim) [VStr ''%water%''] =
     Inr [[(''survey_id'', VInt 42), (''respondent_id'', VInt 7),
           (''survey_date'', VStr ''2024-05-01''), (''location'', VStr ''Springfield''),
           (''respondent_type'', VStr ''farmer''),
           (''questions_responses'',
              VStr (''{'' @ dq @ ''Water source?'' @ dq @ '': '' @ dq @ ''well'' @ dq @ ''}'')),
           (''created_at'', VStr ''2024-05-02'')]]"
  by (simp add: search_fetch_def select_columns_search_query water_row_def school_row_def
      ilike_def lower_char_def)

lemma search_double_call:
  "call_tool (search_env [water_row, school_row]) (Some ready) ''search_surveys_by_question''
      [''question_text'' \<mapsto> VStr ''water''] world0 =
     (Inr (CallToolResult [TextContent (Json_dumps (PyDict
        [(''count'', Scalar (VInt 1)),
         (''matching_surveys'', PyList [PyDict
            [(''survey_id'', Scalar (VInt 42)),
             (''respondent_id'', Scalar (VInt 7)),
             (''survey_date'', Scalar (VStr ''2024-05-01'')),
             (''location'', Scalar (VStr ''Springfield'')),
             (''respondent_type'', Scalar (VStr ''farmer'')),
             (''questions_responses'', Scalar (VStr
                (''{'' @ dq @ ''Water source?'' @ dq @ '': '' @ dq @ ''well'' @ dq @ ''}''))),
             (''created_at'', Scalar (VStr ''2024-05-02''))]])]))]),
      \<lparr>opened = 1, closed = 1,
        executed = [(search_query [''questions_responses::text ILIKE $1''] (VInt 50),
                     [VStr ''%water%''])]\<rparr>)"
proof -
  let ?E = "search_env [water_row, school_row]"
  have b: "build_search_query (VStr ''water'') VNone (VInt 50) =
      Some (search_query [''questions_responses::text ILIKE $1''] (VInt 50), [VStr ''%water%''])"
    by (simp add: build_search_query_def search_conditions_cases)
  have g: "getconn ?E w1 = None" for w1
    by (simp add: search_env_def fixture_env_def)
  have f: "conn_fetch ?E w1 sql ps = search_fetch [water_row, school_row] w1 sql ps" for w1 sql ps
    by (simp add: search_env_def)
  have e: "execute_query ?E ready (search_query conds lim) [VStr ''%water%''] world0 =
      (search_fetch [water_row, school_row] (world0\<lparr>opened := 1\<rparr>) (search_query conds lim)
         [VStr ''%water%''],
       \<lparr>opened = 1, closed = 1, executed = [(search_query conds lim, [VStr ''%water%''])]\<rparr>)"
    for conds lim
    by (simp add: execute_query_def ready_def g f Let_def world0_def)
  show ?thesis
    by (simp add: call_tool_def call_tool_try_def dict_get_def b e search_fetch_water row_obj_def)
qed

text \<open>
  Claim C8, as amended.  Given a driver that answers the search statement with rows
  carrying exactly the columns of that statement's select list, every element of
  \<open>matching_surveys\<close> has exactly the seven columns survey identifier, respondent
  identifier, survey date, location, respondent type, questions/responses and creation
  timestamp.
\<close>

theorem search_result_columns:
  assumes driver: "\<forall>w conds lim ps rows.
                     conn_fetch E w (search_query conds lim) ps = Inr rows \<longrightarrow>
                     list_all (\<lambda>r. map fst r = select_columns (search_query conds lim)) rows"
      and call: "call_tool E (Some db) ''search_surveys_by_question'' arguments w = (Inr result, w')"
  shows "list_all (\<lambda>obj. obj_keys obj =
            [''survey_id'', ''respondent_id'', ''survey_date'', ''location'', ''respondent_type'',
             ''questions_responses'', ''created_at''])
           (matching_surveys result)"
proof (cases "build_search_query (dict_get arguments ''question_text'' VNone)
                (dict_get arguments ''response_text'' VNone) (dict_get arguments ''limit'' (VInt 50))")
  case None
  with call have "result = CallToolResult [TextContent (Plain
      ''Error: At least one search parameter (question_text or response_text) is required'')]"
    by (simp add: call_tool_def call_tool_try_def)
  then show ?thesis by simp
next
  case (Some qp)
  obtain query params where qp: "qp = (query, params)" by (cases qp)
  from Some qp obtain conds where q: "query = search_query conds (dict_get arguments ''limit'' (VInt 50))"
    by (auto simp: build_search_query_def split: prod.splits if_splits)
  show ?thesis
  proof (cases "execute_query E db query params w")
    case (Pair r w1)
    show ?thesis
    proof (cases r)
      case (Inl e)
      with Pair Some qp call have "result = CallToolResult [TextContent (Plain (''Error: '' @ str_exc e))]"
        by (simp add: call_tool_def call_tool_try_def split: if_splits)
      then show ?thesis by simp
    next
      case (Inr rows)
      with Pair Some qp call have res: "result = CallToolResult [TextContent (Json_dumps (PyDict
                         [(''count'', Scalar (VInt (int (length rows)))),
                          (''matching_surveys'', PyList (map row_obj rows))]))]"
        by (simp add: call_tool_def call_tool_try_def)
      from Pair Inr execute_query_rows obtain w2 where "conn_fetch E w2 query params = Inr rows"
        by blast
      with driver q have "list_all (\<lambda>r. map fst r = select_columns query) rows"
        by blast
      then have "list_all (\<lambda>r. map fst r =
            [''survey_id'', ''respondent_id'', ''survey_date'', ''location'', ''respondent_type'',
             ''questions_responses'', ''created_at'']) rows"
        by (simp add: q select_columns_search_query)
      then show ?thesis
        by (simp add: res list_all_iff obj_keys_row_obj)
    qed
  qed
qed

theorem search_result_columns_witness:
  "list_all (\<lambda>obj. obj_keys obj =
            [''survey_id'', ''respondent_id'', ''survey_date'', ''location'', ''respondent_type'',
             ''questions_responses'', ''created_at''])
     (matching_surveys (CallToolResult [TextContent (Json_dumps (PyDict
        [(''count'', Scalar (VInt 1)),
         (''matching_surveys'', PyList [PyDict
            [(''survey_id'', Scalar (VInt 42)),
             (''respondent_id'', Scalar (VInt 7)),
             (''survey_date'', Scalar (VStr ''2024-05-01'')),
             (''location'', Scalar (VStr ''Springfield'')),
             (''respondent_type'', Scalar (VStr ''farmer'')),
             (''questions_responses'', Scalar (VStr
                (''{'' @ dq @ ''Water source?'' @ dq @ '': '' @ dq @ ''well'' @ dq @ ''}''))),
             (''created_at'', Scalar (VStr ''2024-05-02''))]])]))]))"
  using search_result_columns [OF search_driver_projects search_double_call] .

text \<open>
  Claim C8 as stated has every element a full survey record.  The table holds two rows
  with all nine attributes; the search for \<open>water\<close> matches the questions/responses
  text of the first, and the one element returned for it carries neither
  \<open>metadata\<close> nor \<open>updated_at\<close>.
\<close>

theorem search_result_not_full_record_counterexample:
  "(case fst (call_tool (search_env [water_row, school_row]) (Some ready)
                ''search_surveys_by_question'' [''question_text'' \<mapsto> VStr ''water''] world0) of
      Inl e \<Rightarrow> False
    | Inr result \<Rightarrow>
        map obj_keys (matching_surveys result) =
          [[''survey_id'', ''respondent_id'', ''survey_date'', ''location'', ''respondent_type'',
            ''questions_responses'', ''created_at'']]
        \<and> \<not> list_all full_survey_record (matching_surveys result))"
  by (simp add: search_double_call full_survey_record_def survey_record_attributes_def)

end
